theory Spec2Isabelle
  imports Complex_Main "HOL-Library.Sublist" "HOL-Library.AList"
begin

section \<open>py-feedr: the feed monitor and the tweet composer\<close>

text \<open>
  A shallow embedding of \<^verbatim>\<open>feedr/monitor.py\<close> (class \<^verbatim>\<open>MonitorFeedUpdate\<close>) and
  \<^verbatim>\<open>feedr/tweetupdate.py\<close> (class \<^verbatim>\<open>TweetUpdate\<close>). Python strings are lists of
  characters, a raised exception is the \<open>Inl\<close> side of a sum, and everything a method
  does to the database, to the Twitter account or to the console is an update of an
  explicit \<open>world\<close> value that is returned next to the result.
\<close>

subsection \<open>Python values\<close>

text \<open>
  The exceptions that occur. All of them are subclasses of \<^verbatim>\<open>Exception\<close>, so the clause
  \<^verbatim>\<open>except Exception\<close> of \<^verbatim>\<open>monitor\<close> catches each of them; only
  \<open>TwitterHTTPError\<close> is caught by the two inner handlers of
  \<^verbatim>\<open>tweet_latest_update\<close>.
\<close>

datatype exn =
    AttributeError | IndexError | KeyError | TypeError | ValueError
  | TwitterHTTPError | URLError

text \<open>\<^verbatim>\<open>d[key]\<close> on a dictionary: an absent key raises \<^verbatim>\<open>KeyError\<close>.\<close>

definition getitem :: "'a option \<Rightarrow> exn + 'a" where
  "getitem v = (case v of None \<Rightarrow> Inl KeyError | Some x \<Rightarrow> Inr x)"

text \<open>
  \<^verbatim>\<open>s[:n]\<close>: a negative stop counts from the end of the string, and a stop beyond
  either end is clipped.
\<close>

definition slice_to :: "string \<Rightarrow> int \<Rightarrow> string" where
  "slice_to s n = (if 0 \<le> n then take (nat n) s else take (nat (int (length s) + n)) s)"

text \<open>\<^verbatim>\<open>sep.join(xs)\<close>.\<close>

fun join :: "string \<Rightarrow> string list \<Rightarrow> string" where
  "join sep [] = []"
| "join sep [x] = x"
| "join sep (x # y # ys) = x @ sep @ join sep (y # ys)"

text \<open>
  \<^verbatim>\<open>bool(v)\<close> for a value that is \<^verbatim>\<open>None\<close> or a string: \<^verbatim>\<open>None\<close> and the empty string
  are false.
\<close>

definition truthy :: "string option \<Rightarrow> bool" where
  "truthy v = (case v of None \<Rightarrow> False | Some s \<Rightarrow> s \<noteq> [])"

text \<open>The newline character, \<^verbatim>\<open>'\n'\<close>.\<close>

definition nl :: string where
  "nl = [CHR 0x0A]"

subsection \<open>Feed entries\<close>

text \<open>
  An entry of \<^verbatim>\<open>feedparser\<close> is a dictionary; the code reads the keys below. A key that is
  absent is \<open>None\<close>. \<open>content\<close> holds the \<^verbatim>\<open>.value\<close> of each element of the list
  \<^verbatim>\<open>feed_entry.content\<close>.
\<close>

record feed_entry =
  title :: "string option"
  link :: "string option"
  published :: "string option"
  updated :: "string option"
  summary :: "string option"
  content :: "string list option"
  description :: "string option"

subsection \<open>Libraries the code calls\<close>

text \<open>
  The requests the program sends: the Twitter API calls of \<^verbatim>\<open>self.twitter_api\<close>, the
  download of \<^verbatim>\<open>urllib.request.urlretrieve\<close>, and the two methods \<^verbatim>\<open>reset_msg\<close> and
  \<^verbatim>\<open>send_dm\<close> that \<^verbatim>\<open>monitor.py\<close> calls on its \<^verbatim>\<open>TweetUpdate\<close> object.
\<close>

datatype api_call =
    HomeTimeline nat
  | Destroy nat
  | UrlRetrieve string
  | UpdateWithMedia string string
  | Update string
  | ResetMsg
  | SendDm string string

text \<open>
  What the libraries compute is a parameter of the model:
  \<^item> \<open>sha256_hexdigest s\<close> is \<^verbatim>\<open>hashlib.sha256(s.encode('utf-8')).hexdigest()\<close>;
  \<^item> \<open>ratio a b\<close> is \<^verbatim>\<open>difflib.SequenceMatcher(None, a, b).ratio()\<close>, the quotient
    \<open>2 * matches / (length a + length b)\<close> that the float holds (the comparison with
    \<open>0.75\<close> is the same on both for strings of fewer than \<open>2^50\<close> characters);
  \<^item> \<open>find_img html\<close> is \<^verbatim>\<open>BeautifulSoup(html, 'html.parser').find('img')\<close>: the
    attributes of the first \<^verbatim>\<open><img>\<close> tag, or \<open>None\<close> when there is no such tag;
  \<^item> \<open>raises cs c\<close> says whether the request \<open>c\<close>, sent after the requests \<open>cs\<close>,
    raises, and which exception;
  \<^item> \<open>retrieved u\<close> is the content of the file downloaded from \<open>u\<close>.

  \<^verbatim>\<open>tweetupdate.py\<close> defines neither \<^verbatim>\<open>reset_msg\<close> nor \<^verbatim>\<open>send_dm\<close>: on the class as it
  stands there both calls raise \<^verbatim>\<open>AttributeError\<close>, which is the instance of \<open>raises\<close>
  that answers \<open>Some AttributeError\<close> to \<open>ResetMsg\<close> and \<open>SendDm\<close>. The theorems below
  hold for every \<open>raises\<close>.
\<close>

record env =
  sha256_hexdigest :: "string \<Rightarrow> string"
  ratio :: "string \<Rightarrow> string \<Rightarrow> rat"
  find_img :: "string \<Rightarrow> (string \<rightharpoonup> string) option"
  raises :: "api_call list \<Rightarrow> api_call \<Rightarrow> exn option"
  retrieved :: "string \<Rightarrow> string"

subsection \<open>The fingerprint of an entry (\<^verbatim>\<open>monitor.py\<close>)\<close>

text \<open>\<^verbatim>\<open>get_latest_entry_date\<close>: the first of the keys \<^verbatim>\<open>published\<close>, \<^verbatim>\<open>updated\<close> that the
  entry has, else the empty string.\<close>

definition get_latest_entry_date :: "feed_entry \<Rightarrow> string" where
  "get_latest_entry_date e =
     (case published e of
        Some d \<Rightarrow> d
      | None \<Rightarrow> (case updated e of Some d \<Rightarrow> d | None \<Rightarrow> []))"

text \<open>\<^verbatim>\<open>rss_latest_sha256\<close>: the digest of date, title and link, concatenated.\<close>

definition rss_latest_sha256 :: "env \<Rightarrow> feed_entry \<Rightarrow> exn + string" where
  "rss_latest_sha256 env e =
     (case getitem (title e) of
        Inl x \<Rightarrow> Inl x
      | Inr t \<Rightarrow>
          (case getitem (link e) of
             Inl x \<Rightarrow> Inl x
           | Inr l \<Rightarrow> Inr (sha256_hexdigest env (get_latest_entry_date e @ t @ l))))"

text \<open>\<^verbatim>\<open>latest_rss_entry_to_db\<close>: the tuple (hash, date, title, link).\<close>

definition latest_rss_entry_to_db ::
  "env \<Rightarrow> feed_entry \<Rightarrow> exn + (string \<times> string \<times> string \<times> string)" where
  "latest_rss_entry_to_db env e =
     (case rss_latest_sha256 env e of
        Inl x \<Rightarrow> Inl x
      | Inr h \<Rightarrow>
          (case getitem (title e) of
             Inl x \<Rightarrow> Inl x
           | Inr t \<Rightarrow>
               (case getitem (link e) of
                  Inl x \<Rightarrow> Inl x
                | Inr l \<Rightarrow> Inr (h, get_latest_entry_date e, t, l))))"

subsection \<open>The image of an entry (\<^verbatim>\<open>tweetupdate.py\<close>)\<close>

text \<open>
  \<^verbatim>\<open>get_entry_img_url\<close>. The HTML is \<^verbatim>\<open>feed_entry.content[0].value\<close> when the entry has a
  \<^verbatim>\<open>content\<close> attribute (an empty list raises \<^verbatim>\<open>IndexError\<close>), else its
  \<^verbatim>\<open>description\<close>, else \<^verbatim>\<open>None\<close>. A tag of \<^verbatim>\<open>bs4\<close> is always true, so a tag that was
  found is indexed with \<^verbatim>\<open>'src'\<close> whatever its attributes are. Falling off the end of
  the method returns \<^verbatim>\<open>None\<close>.
\<close>

definition get_entry_img_url :: "env \<Rightarrow> feed_entry \<Rightarrow> exn + string option" where
  "get_entry_img_url env e =
     (case (case content e of
              Some cs \<Rightarrow> (case cs of [] \<Rightarrow> Inl IndexError | c # _ \<Rightarrow> Inr (Some c))
            | None \<Rightarrow> (case description e of Some d \<Rightarrow> Inr (Some d) | None \<Rightarrow> Inr None)) of
        Inl x \<Rightarrow> Inl x
      | Inr entry_html \<Rightarrow>
          if truthy entry_html then
            (case entry_html of
               None \<Rightarrow> Inr None
             | Some html \<Rightarrow>
                 (case find_img env html of
                    Some img_tag \<Rightarrow>
                      (case getitem (img_tag ''src'') of
                         Inl x \<Rightarrow> Inl x
                       | Inr s \<Rightarrow> Inr (Some s))
                  | None \<Rightarrow> Inr None))
          else Inr None)"

subsection \<open>The world outside the program\<close>

text \<open>
  A row of the table, as \<^verbatim>\<open>get_last_table_entry\<close> returns it: the row's id, then the four
  columns (hash, date, title, url). \<open>index1\<close> and \<open>index3\<close> are the subscripts
  \<^verbatim>\<open>[1]\<close> and \<^verbatim>\<open>[3]\<close> of the source, the hash and the title.
\<close>

type_synonym table_entry = "nat \<times> string \<times> string \<times> string \<times> string"

definition index1 :: "table_entry \<Rightarrow> string" where
  "index1 r = (case r of (i, h, d, t, u) \<Rightarrow> h)"

definition index3 :: "table_entry \<Rightarrow> string" where
  "index3 r = (case r of (i, h, d, t, u) \<Rightarrow> t)"

text \<open>A tweet: its id, its text and the media uploaded with it.\<close>

type_synonym tweet = "nat \<times> string \<times> string option"

text \<open>
  The lines the program prints, without the feed's name and the local time that the
  longer ones carry.
\<close>

datatype line =
    DuplicateDeleted string
  | ErrorWhileSendingTweet exn
  | NewUpdatePosted string string string
  | EntryUpdated
  | PrintLength int
  | PrintMsg string
  | CannotTweetWithMedia
  | PrepareDm string
  | SentDm string string

text \<open>
  The world: the table of the feed and the feed's subscribed users in the SQLite
  database, the tweets of the timeline (newest first), the direct messages delivered,
  the id of the next tweet, every request sent so far (oldest first), and the lines
  printed.
\<close>

record world =
  table :: "table_entry list"
  subscribed_users :: "string list"
  timeline :: "tweet list"
  direct_messages :: "(string \<times> string) list"
  next_tweet_id :: nat
  requests :: "api_call list"
  printed :: "line list"

definition print_line :: "line \<Rightarrow> world \<Rightarrow> world" where
  "print_line p w = w\<lparr>printed := printed w @ [p]\<rparr>"

subsection \<open>The database manager\<close>

text \<open>
  \<^verbatim>\<open>feedr/dbmanager.py\<close> (class \<^verbatim>\<open>DatabaseManager\<close>) is not among the sources; its five
  methods that \<^verbatim>\<open>monitor.py\<close> calls follow the History Store of the spec, a table of
  (fingerprint, date, title, url) rows of which the most recent is the last one inserted.
  The spec does not say that a stored row has an id; the indices the source reads (1 for
  the hash, 3 for the title) are those of a row with one column before the four.
\<close>

text \<open>Modelled from the spec: \<^verbatim>\<open>DatabaseManager.get_last_table_entry\<close> is missing; it is
  \<^verbatim>\<open>mostRecent() -> HistoryRecord | none\<close>.\<close>

definition get_last_table_entry :: "world \<Rightarrow> table_entry option" where
  "get_last_table_entry w = (if table w = [] then None else Some (last (table w)))"

text \<open>Modelled from the spec: \<^verbatim>\<open>DatabaseManager.check_for_existing_update\<close> is missing; it
  is \<^verbatim>\<open>exists(fingerprint) -> bool\<close>.\<close>

definition check_for_existing_update :: "world \<Rightarrow> string \<Rightarrow> bool" where
  "check_for_existing_update w h = (h \<in> set (map index1 (table w)))"

text \<open>Modelled from the spec: \<^verbatim>\<open>DatabaseManager.create_latest_rss_entry\<close> is missing; it
  is \<^verbatim>\<open>insert(record)\<close>.\<close>

definition create_latest_rss_entry ::
  "string \<times> string \<times> string \<times> string \<Rightarrow> world \<Rightarrow> world" where
  "create_latest_rss_entry upd w = w\<lparr>table := table w @ [(Suc (length (table w)), upd)]\<rparr>"

text \<open>Modelled from the spec: \<^verbatim>\<open>DatabaseManager.del_last_table_entry\<close> is missing; it is
  \<^verbatim>\<open>deleteMostRecent()\<close>.\<close>

definition del_last_table_entry :: "world \<Rightarrow> world" where
  "del_last_table_entry w = w\<lparr>table := butlast (table w)\<rparr>"

text \<open>Modelled from the spec: \<^verbatim>\<open>DatabaseManager.get_feed_subscribed_users\<close> is missing; it
  is \<^verbatim>\<open>listSubscribedAccounts() -> sequence<AccountId>\<close>.\<close>

definition get_feed_subscribed_users :: "world \<Rightarrow> string list" where
  "get_feed_subscribed_users w = subscribed_users w"

subsection \<open>Requests\<close>

text \<open>
  A request is recorded, and \<open>raises\<close> decides whether it fails. One that does not fail
  has the effect the spec's Social Publisher interface names: a post is added to the
  timeline, a post is deleted, a direct message is delivered.
\<close>

definition request :: "env \<Rightarrow> api_call \<Rightarrow> world \<Rightarrow> exn option \<times> world" where
  "request env c w = (raises env (requests w) c, w\<lparr>requests := requests w @ [c]\<rparr>)"

definition home_timeline :: "env \<Rightarrow> nat \<Rightarrow> world \<Rightarrow> (exn + tweet list) \<times> world" where
  "home_timeline env n w =
     (case request env (HomeTimeline n) w of
        (Some x, w') \<Rightarrow> (Inl x, w')
      | (None, w') \<Rightarrow> (Inr (take n (timeline w')), w'))"

definition destroy :: "env \<Rightarrow> nat \<Rightarrow> world \<Rightarrow> (exn + unit) \<times> world" where
  "destroy env i w =
     (case request env (Destroy i) w of
        (Some x, w') \<Rightarrow> (Inl x, w')
      | (None, w') \<Rightarrow> (Inr (), w'\<lparr>timeline := filter (\<lambda>tw. fst tw \<noteq> i) (timeline w')\<rparr>))"

definition urlretrieve :: "env \<Rightarrow> string \<Rightarrow> world \<Rightarrow> (exn + string) \<times> world" where
  "urlretrieve env u w =
     (case request env (UrlRetrieve u) w of
        (Some x, w') \<Rightarrow> (Inl x, w')
      | (None, w') \<Rightarrow> (Inr (retrieved env u), w'))"

definition new_tweet :: "string \<Rightarrow> string option \<Rightarrow> world \<Rightarrow> world" where
  "new_tweet status media w =
     w\<lparr>timeline := (next_tweet_id w, status, media) # timeline w,
       next_tweet_id := Suc (next_tweet_id w)\<rparr>"

definition update_with_media ::
  "env \<Rightarrow> string \<Rightarrow> string \<Rightarrow> world \<Rightarrow> (exn + unit) \<times> world" where
  "update_with_media env status img w =
     (case request env (UpdateWithMedia status img) w of
        (Some x, w') \<Rightarrow> (Inl x, w')
      | (None, w') \<Rightarrow> (Inr (), new_tweet status (Some img) w'))"

definition update :: "env \<Rightarrow> string \<Rightarrow> world \<Rightarrow> (exn + unit) \<times> world" where
  "update env status w =
     (case request env (Update status) w of
        (Some x, w') \<Rightarrow> (Inl x, w')
      | (None, w') \<Rightarrow> (Inr (), new_tweet status None w'))"

text \<open>Modelled from the spec: \<^verbatim>\<open>TweetUpdate.reset_msg\<close> is missing from \<^verbatim>\<open>tweetupdate.py\<close>,
  and the spec has no operation for it: the call raises or returns, and changes nothing
  else.\<close>

definition reset_msg :: "env \<Rightarrow> world \<Rightarrow> (exn + unit) \<times> world" where
  "reset_msg env w =
     (case request env ResetMsg w of
        (Some x, w') \<Rightarrow> (Inl x, w')
      | (None, w') \<Rightarrow> (Inr (), w'))"

text \<open>Modelled from the spec: \<^verbatim>\<open>TweetUpdate.send_dm\<close> is missing from \<^verbatim>\<open>tweetupdate.py\<close>; it
  is \<^verbatim>\<open>sendDirectMessage(account, text)\<close>.\<close>

definition send_dm :: "env \<Rightarrow> string \<Rightarrow> string \<Rightarrow> world \<Rightarrow> (exn + unit) \<times> world" where
  "send_dm env user m w =
     (case request env (SendDm user m) w of
        (Some x, w') \<Rightarrow> (Inl x, w')
      | (None, w') \<Rightarrow> (Inr (), w'\<lparr>direct_messages := direct_messages w' @ [(user, m)]\<rparr>))"

subsection \<open>\<^verbatim>\<open>TweetUpdate\<close>\<close>

text \<open>
  \<^verbatim>\<open>delete_last_tweet\<close>: the first element of \<^verbatim>\<open>home_timeline(count=1)\<close> (an empty
  timeline raises \<^verbatim>\<open>IndexError\<close>) is destroyed by its id.
\<close>

definition delete_last_tweet :: "env \<Rightarrow> world \<Rightarrow> (exn + unit) \<times> world" where
  "delete_last_tweet env w =
     (case home_timeline env 1 w of
        (Inl x, w1) \<Rightarrow> (Inl x, w1)
      | (Inr tws, w1) \<Rightarrow>
          (case tws of
             [] \<Rightarrow> (Inl IndexError, w1)
           | last_tweet # _ \<Rightarrow> destroy env (fst last_tweet) w1))"

text \<open>
  The message is an \<^verbatim>\<open>OrderedDict\<close>: keys in insertion order, each with \<^verbatim>\<open>None\<close> or a
  string. Assigning to a key that is there keeps its place.
\<close>

type_synonym msg = "(string \<times> string option) list"

definition empty_msg :: msg where
  "empty_msg = [(''title'', None), (''summary'', None), (''url'', None), (''img_url'', None)]"

text \<open>\<^verbatim>\<open>'\n'.join(filter(bool, msg.values()))\<close> and \<^verbatim>\<open>msg_length()\<close>, its length.\<close>

definition msg_text :: "msg \<Rightarrow> string" where
  "msg_text m = join nl [s. Some s \<leftarrow> map snd m, s \<noteq> []]"

definition msg_length :: "msg \<Rightarrow> int" where
  "msg_length m = int (length (msg_text m))"

text \<open>\<^verbatim>\<open>'\n'.join(msg)\<close>: iterating over a dictionary yields its keys.\<close>

definition msg_keys_text :: "msg \<Rightarrow> string" where
  "msg_keys_text m = join nl (map fst m)"

text \<open>
  Lines 61 to 71 of \<^verbatim>\<open>tweet_latest_update\<close>: the budget left once the link and the image
  have their share.
\<close>

definition msg_limit_length :: "string \<Rightarrow> string option \<Rightarrow> int" where
  "msg_limit_length url img_url =
     140 - (if url \<noteq> [] then 24 else 0) - (if truthy img_url then 25 else 0)"

text \<open>
  Lines 73 to 98: the title, cut when it alone is over the budget; else the summary, when
  the entry has one, cut when title and summary together are over the budget.
\<close>

definition compose :: "int \<Rightarrow> string \<Rightarrow> string option \<Rightarrow> msg" where
  "compose limit t sm =
     (let msg1 = AList.update ''title'' (Some t) empty_msg in
      if msg_length msg1 - limit > 0 then
        AList.update ''title'' (Some (slice_to t (limit - 3) @ ''...'')) msg1
      else
        (case sm of
           None \<Rightarrow> msg1
         | Some s \<Rightarrow>
             (let msg2 = AList.update ''summary'' (Some s) msg1 in
              if msg_length msg2 - limit > 0 then
                (let summary_length = limit - msg_length msg2 in
                 AList.update ''summary''
                   (Some (slice_to s (summary_length - 3) @ ''...'')) msg2)
              else msg2)))"

text \<open>
  Lines 118 to 128: the plain tweet; when Twitter rejects it, the key \<^verbatim>\<open>summary\<close> is
  popped and the tweet is sent once more. Any other exception, and one of the second
  tweet, leave the method.
\<close>

definition tweet_plain :: "env \<Rightarrow> msg \<Rightarrow> world \<Rightarrow> (exn + unit) \<times> world" where
  "tweet_plain env m w =
     (case update env (msg_text m) w of
        (Inr r, w1) \<Rightarrow> (Inr r, w1)
      | (Inl x, w1) \<Rightarrow>
          if x = TwitterHTTPError then
            (let m' = AList.delete ''summary'' m;
                 w2 = print_line (PrintMsg (msg_text m'))
                        (print_line (PrintLength (msg_length m')) w1)
             in update env (msg_text m') w2)
          else (Inl x, w1))"

text \<open>
  Lines 104 to 116: with an image, the image is downloaded and the tweet with media is
  sent, its status being \<^verbatim>\<open>'\n'.join(msg)\<close>; when Twitter rejects it, the image's URL
  becomes a field of the message and the plain tweet follows.
\<close>

definition tweet_media :: "env \<Rightarrow> msg \<Rightarrow> string option \<Rightarrow> world \<Rightarrow> (exn + unit) \<times> world" where
  "tweet_media env m img_url w =
     (case img_url of
        None \<Rightarrow> tweet_plain env m w
      | Some iu \<Rightarrow>
          if iu = [] then tweet_plain env m w
          else
            (case urlretrieve env iu w of
               (Inl x, w1) \<Rightarrow> (Inl x, w1)
             | (Inr img, w1) \<Rightarrow>
                 (case update_with_media env (msg_keys_text m) img w1 of
                    (Inr r, w2) \<Rightarrow> (Inr r, w2)
                  | (Inl x, w2) \<Rightarrow>
                      if x = TwitterHTTPError then
                        tweet_plain env (AList.update ''img_url'' (Some iu) m)
                          (print_line CannotTweetWithMedia w2)
                      else (Inl x, w2))))"

text \<open>\<^verbatim>\<open>tweet_latest_update\<close>, the whole method.\<close>

definition tweet_latest_update :: "env \<Rightarrow> feed_entry \<Rightarrow> world \<Rightarrow> (exn + unit) \<times> world" where
  "tweet_latest_update env e w =
     (case getitem (link e) of
        Inl x \<Rightarrow> (Inl x, w)
      | Inr url \<Rightarrow>
          (case get_entry_img_url env e of
             Inl x \<Rightarrow> (Inl x, w)
           | Inr img_url \<Rightarrow>
               (case getitem (title e) of
                  Inl x \<Rightarrow> (Inl x, w)
                | Inr t \<Rightarrow>
                    (let m = compose (msg_limit_length url img_url) t (summary e);
                         w1 = print_line (PrintMsg (msg_text m))
                                (print_line (PrintLength (msg_length m)) w)
                     in tweet_media env (AList.update ''url'' (Some url) m) img_url w1))))"

subsection \<open>\<^verbatim>\<open>MonitorFeedUpdate\<close>\<close>

text \<open>
  \<^verbatim>\<open>is_duplicate_update\<close>: false on an empty table; else true when the title of the last
  row is contained in the entry's title, or when the ratio of the two titles is at least
  \<open>0.75\<close>.
\<close>

definition is_duplicate_update :: "env \<Rightarrow> feed_entry \<Rightarrow> world \<Rightarrow> exn + bool" where
  "is_duplicate_update env e w =
     (case getitem (title e) of
        Inl x \<Rightarrow> Inl x
      | Inr cur_title \<Rightarrow>
          (case get_last_table_entry w of
             None \<Rightarrow> Inr False
           | Some last_table_entry \<Rightarrow>
               (let prev_title = index3 last_table_entry in
                if sublist prev_title cur_title then Inr True
                else if ratio env cur_title prev_title \<ge> 3 / 4 then Inr True
                else Inr False)))"

text \<open>
  The loop of \<^verbatim>\<open>send_dm_to_feed_subscribed_users\<close>: one direct message after the other;
  an exception of \<^verbatim>\<open>send_dm\<close> leaves the loop.
\<close>

fun send_dm_loop :: "env \<Rightarrow> string \<Rightarrow> string list \<Rightarrow> world \<Rightarrow> (exn + unit) \<times> world" where
  "send_dm_loop env m [] w = (Inr (), w)"
| "send_dm_loop env m (user # users) w =
     (case send_dm env user m (print_line (PrepareDm user) w) of
        (Inl x, w1) \<Rightarrow> (Inl x, w1)
      | (Inr _, w1) \<Rightarrow> send_dm_loop env m users (print_line (SentDm user m) w1))"

text \<open>\<^verbatim>\<open>send_dm_to_feed_subscribed_users\<close>: the message is title, newline, link.\<close>

definition send_dm_to_feed_subscribed_users ::
  "env \<Rightarrow> string list \<Rightarrow> feed_entry \<Rightarrow> world \<Rightarrow> (exn + unit) \<times> world" where
  "send_dm_to_feed_subscribed_users env feed_subscribed_users e w =
     (case getitem (title e) of
        Inl x \<Rightarrow> (Inl x, w)
      | Inr t \<Rightarrow>
          (case getitem (link e) of
             Inl x \<Rightarrow> (Inl x, w)
           | Inr l \<Rightarrow> send_dm_loop env (t @ nl @ l) feed_subscribed_users w))"

text \<open>
  Line 78 of \<^verbatim>\<open>monitor\<close> is \<^verbatim>\<open>self.dbmanager.get_last_table_entry[1]\<close>: the method is not
  called (as it is on line 117), the bound method itself is subscripted, and a method
  has no \<^verbatim>\<open>__getitem__\<close>.
\<close>

definition subscript_method :: "(world \<Rightarrow> table_entry option) \<Rightarrow> nat \<Rightarrow> exn + string" where
  "subscript_method f i = Inl TypeError"

text \<open>
  Lines 81 to 86 format a string that has the numbered fields \<^verbatim>\<open>{0}\<close>, \<^verbatim>\<open>{1}\<close> and the
  unnumbered field \<^verbatim>\<open>{}\<close>; \<^verbatim>\<open>str.format\<close> refuses the mixture.
\<close>

definition format_duplicate_lines :: "string \<Rightarrow> exn + line" where
  "format_duplicate_lines entry_table_hash = Inl ValueError"

text \<open>Lines 76 to 86 of \<^verbatim>\<open>monitor\<close>: what is done for a duplicate before the tweet.\<close>

definition retract_duplicate :: "env \<Rightarrow> feed_entry \<Rightarrow> world \<Rightarrow> (exn + unit) \<times> world" where
  "retract_duplicate env e w =
     (case is_duplicate_update env e w of
        Inl x \<Rightarrow> (Inl x, w)
      | Inr dup \<Rightarrow>
          if dup then
            (case delete_last_tweet env w of
               (Inl x, w1) \<Rightarrow> (Inl x, w1)
             | (Inr _, w1) \<Rightarrow>
                 (case subscript_method get_last_table_entry 1 of
                    Inl x \<Rightarrow> (Inl x, w1)
                  | Inr entry_table_hash \<Rightarrow>
                      (let w2 = del_last_table_entry w1 in
                       case format_duplicate_lines entry_table_hash of
                         Inl x \<Rightarrow> (Inl x, w2)
                       | Inr p \<Rightarrow> (Inr (), print_line p w2))))
          else (Inr (), w))"

text \<open>Lines 89 to 91: the body of the \<^verbatim>\<open>try\<close> statement.\<close>

definition try_body ::
  "env \<Rightarrow> string list \<Rightarrow> feed_entry \<Rightarrow> world \<Rightarrow> (exn + unit) \<times> world" where
  "try_body env feed_subscribed_users e w =
     (case tweet_latest_update env e w of
        (Inl x, w1) \<Rightarrow> (Inl x, w1)
      | (Inr _, w1) \<Rightarrow>
          (case reset_msg env w1 of
             (Inl x, w2) \<Rightarrow> (Inl x, w2)
           | (Inr _, w2) \<Rightarrow> send_dm_to_feed_subscribed_users env feed_subscribed_users e w2))"

text \<open>Lines 95 to 102: the line of the \<^verbatim>\<open>else\<close> clause.\<close>

definition new_update_line :: "env \<Rightarrow> feed_entry \<Rightarrow> exn + line" where
  "new_update_line env e =
     (case rss_latest_sha256 env e of
        Inl x \<Rightarrow> Inl x
      | Inr h \<Rightarrow>
          (case getitem (title e) of
             Inl x \<Rightarrow> Inl x
           | Inr t \<Rightarrow> Inr (NewUpdatePosted (slice_to h 10) t (get_latest_entry_date e))))"

text \<open>
  Lines 88 to 107, the \<^verbatim>\<open>try\<close> statement: an exception of the body is printed by the
  \<^verbatim>\<open>except\<close> clause and is over; without one the \<^verbatim>\<open>else\<close> clause prints; the
  \<^verbatim>\<open>finally\<close> clause inserts the entry's row either way, and an exception that is still
  pending after it goes on.
\<close>

definition try_statement ::
  "env \<Rightarrow> string list \<Rightarrow> feed_entry \<Rightarrow> world \<Rightarrow> (exn + unit) \<times> world" where
  "try_statement env feed_subscribed_users e w =
     (let (r, w2) =
        (case try_body env feed_subscribed_users e w of
           (Inl x, w1) \<Rightarrow> (Inr (), print_line (ErrorWhileSendingTweet x) w1)
         | (Inr _, w1) \<Rightarrow>
             (case new_update_line env e of
                Inl x \<Rightarrow> (Inl x, w1)
              | Inr p \<Rightarrow> (Inr (), print_line p w1)))
      in case latest_rss_entry_to_db env e of
           Inl x \<Rightarrow> (Inl x, w2)
         | Inr upd \<Rightarrow> (r, print_line EntryUpdated (create_latest_rss_entry upd w2)))"

text \<open>Lines 65 to 107: the body of the loop of \<^verbatim>\<open>monitor\<close>, for one entry.\<close>

definition monitor_entry ::
  "env \<Rightarrow> string list \<Rightarrow> feed_entry \<Rightarrow> world \<Rightarrow> (exn + unit) \<times> world" where
  "monitor_entry env feed_subscribed_users e w =
     (case rss_latest_sha256 env e of
        Inl x \<Rightarrow> (Inl x, w)
      | Inr unchecked_hash \<Rightarrow>
          if check_for_existing_update w unchecked_hash then (Inr (), w)
          else
            (case retract_duplicate env e w of
               (Inl x, w1) \<Rightarrow> (Inl x, w1)
             | (Inr _, w1) \<Rightarrow> try_statement env feed_subscribed_users e w1))"

text \<open>The loop: an exception that leaves the body leaves \<^verbatim>\<open>monitor\<close>.\<close>

fun monitor_loop ::
  "env \<Rightarrow> string list \<Rightarrow> feed_entry list \<Rightarrow> world \<Rightarrow> (exn + unit) \<times> world" where
  "monitor_loop env feed_subscribed_users [] w = (Inr (), w)"
| "monitor_loop env feed_subscribed_users (e # es) w =
     (case monitor_entry env feed_subscribed_users e w of
        (Inl x, w1) \<Rightarrow> (Inl x, w1)
      | (Inr _, w1) \<Rightarrow> monitor_loop env feed_subscribed_users es w1)"

text \<open>\<^verbatim>\<open>monitor\<close>: the subscribed users are read once, the entries are taken oldest first.\<close>

definition monitor :: "env \<Rightarrow> feed_entry list \<Rightarrow> world \<Rightarrow> (exn + unit) \<times> world" where
  "monitor env entries w = monitor_loop env (get_feed_subscribed_users w) (rev entries) w"

subsection \<open>Notions the properties use\<close>

text \<open>The HTML body of an entry: the first content value, or else the description.\<close>

definition has_html :: "feed_entry \<Rightarrow> string \<Rightarrow> bool" where
  "has_html e html =
     ((\<exists>rest. content e = Some (html # rest)) \<or>
      (content e = None \<and> description e = Some html))"

subsection \<open>Example inputs\<close>

text \<open>
  Libraries for the examples: the digest is the identity (so that it has no collision),
  the ratio of the two release titles is \<open>4/5\<close> and every other ratio is \<open>0\<close>, two
  bodies hold an image (one without \<^verbatim>\<open>src\<close>), and no request fails.
\<close>

definition example_env :: env where
  "example_env =
     \<lparr>sha256_hexdigest = (\<lambda>s. s),
      ratio = (\<lambda>a b. if a = ''Release v1.2.1 now available'' \<and>
                         b = ''Release v1.2.0 now available'' then 4 / 5 else 0),
      find_img = (\<lambda>h. if h = ''<img alt=x>'' then Some [''alt'' \<mapsto> ''x'']
                       else if h = ''<img src=http://x/i.png>''
                       then Some [''src'' \<mapsto> ''http://x/i.png''] else None),
      raises = (\<lambda>cs c. None),
      retrieved = (\<lambda>u. ''PNG'')\<rparr>"

text \<open>The same libraries, with the \<^verbatim>\<open>TweetUpdate\<close> class of \<^verbatim>\<open>tweetupdate.py\<close>: it has no
  method \<^verbatim>\<open>reset_msg\<close> and no method \<^verbatim>\<open>send_dm\<close>.\<close>

definition source_env :: env where
  "source_env =
     example_env\<lparr>raises := (\<lambda>cs c. case c of ResetMsg \<Rightarrow> Some AttributeError
                                       | SendDm u m \<Rightarrow> Some AttributeError
                                       | _ \<Rightarrow> None)\<rparr>"

text \<open>Twitter rejects the tweet with media and the first plain tweet.\<close>

definition rejecting_env :: env where
  "rejecting_env =
     example_env\<lparr>raises := (\<lambda>cs c. case c of
          UpdateWithMedia s i \<Rightarrow> Some TwitterHTTPError
        | Update s \<Rightarrow> if list_ex (\<lambda>c'. case c' of Update t \<Rightarrow> True | _ \<Rightarrow> False) cs
                      then None else Some TwitterHTTPError
        | _ \<Rightarrow> None)\<rparr>"

text \<open>The direct message to \<^verbatim>\<open>bob\<close> fails.\<close>

definition bob_env :: env where
  "bob_env =
     example_env\<lparr>raises := (\<lambda>cs c. case c of
          SendDm u m \<Rightarrow> if u = ''bob'' then Some TwitterHTTPError else None
        | _ \<Rightarrow> None)\<rparr>"

definition storm :: feed_entry where
  "storm = \<lparr>title = Some ''Storm warning'', link = Some ''http://x/1'',
     published = Some ''Mon'', updated = None, summary = None, content = None,
     description = None\<rparr>"

definition storm_updated :: feed_entry where
  "storm_updated = storm\<lparr>title := Some ''Storm warning - updated''\<rparr>"

definition release_0 :: feed_entry where
  "release_0 = storm\<lparr>title := Some ''Release v1.2.0 now available''\<rparr>"

definition release_1 :: feed_entry where
  "release_1 = storm\<lparr>title := Some ''Release v1.2.1 now available''\<rparr>"

definition no_src :: feed_entry where
  "no_src = storm\<lparr>content := Some [''<img alt=x>'']\<rparr>"

definition with_img :: feed_entry where
  "with_img = storm\<lparr>summary := Some ''Rain'', content := Some [''<img src=http://x/i.png>'']\<rparr>"

definition long_title :: feed_entry where
  "long_title = storm\<lparr>title := Some (replicate 113 CHR ''a''), summary := Some ''abc''\<rparr>"

definition empty_world :: world where
  "empty_world = \<lparr>table = [], subscribed_users = [''amy'', ''bob'', ''eve''], timeline = [],
     direct_messages = [], next_tweet_id = 0, requests = [], printed = []\<rparr>"

text \<open>The world after \<open>storm\<close> has been tweeted and stored.\<close>

definition storm_world :: world where
  "storm_world = empty_world
     \<lparr>table := [(1, ''MonStorm warninghttp://x/1'', ''Mon'', ''Storm warning'', ''http://x/1'')],
      timeline := [(0, ''Storm warning'' @ nl @ ''http://x/1'', None)],
      next_tweet_id := 1\<rparr>"

text \<open>The world after \<open>release_0\<close> has been tweeted and stored.\<close>

definition release_world :: world where
  "release_world = empty_world
     \<lparr>table := [(1, ''MonRelease v1.2.0 now availablehttp://x/1'', ''Mon'',
                 ''Release v1.2.0 now available'', ''http://x/1'')],
      timeline := [(0, ''Release v1.2.0 now available'' @ nl @ ''http://x/1'', None)],
      next_tweet_id := 1\<rparr>"


section \<open>Properties\<close>

text \<open>The equations that run the model on a concrete input.\<close>

lemmas run_defs =
  getitem_def slice_to_def truthy_def get_latest_entry_date_def rss_latest_sha256_def
  latest_rss_entry_to_db_def get_entry_img_url_def index1_def index3_def print_line_def
  get_last_table_entry_def check_for_existing_update_def create_latest_rss_entry_def
  del_last_table_entry_def get_feed_subscribed_users_def request_def home_timeline_def
  destroy_def urlretrieve_def new_tweet_def update_with_media_def update_def reset_msg_def
  send_dm_def delete_last_tweet_def empty_msg_def msg_text_def msg_length_def
  msg_keys_text_def msg_limit_length_def compose_def tweet_plain_def tweet_media_def
  tweet_latest_update_def is_duplicate_update_def send_dm_to_feed_subscribed_users_def
  subscript_method_def format_duplicate_lines_def retract_duplicate_def try_body_def
  new_update_line_def try_statement_def monitor_entry_def monitor_def Let_def

lemmas example_defs =
  example_env_def source_env_def rejecting_env_def bob_env_def storm_def storm_updated_def
  release_0_def release_1_def no_src_def with_img_def long_title_def empty_world_def
  storm_world_def release_world_def

subsection \<open>The fingerprint\<close>

text \<open>
  C8: the fingerprint of an entry is the digest of date, title and link concatenated.
  Two entries with the same date, title and link have the same fingerprint; when one of
  the three fields differs and the other two are the same, the fingerprints differ,
  provided the digest does not collide on the two concatenations.
\<close>

theorem rss_latest_sha256_fingerprint:
  assumes "title e1 = Some t1" and "link e1 = Some l1"
    and "title e2 = Some t2" and "link e2 = Some l2"
    and "d1 = get_latest_entry_date e1" and "d2 = get_latest_entry_date e2"
  shows "rss_latest_sha256 env e1 = Inr (sha256_hexdigest env (d1 @ t1 @ l1)) \<and>
    (d1 = d2 \<and> t1 = t2 \<and> l1 = l2 \<longrightarrow> rss_latest_sha256 env e1 = rss_latest_sha256 env e2) \<and>
    ((sha256_hexdigest env (d1 @ t1 @ l1) = sha256_hexdigest env (d2 @ t2 @ l2)
        \<longrightarrow> d1 @ t1 @ l1 = d2 @ t2 @ l2) \<and>
     ((d1 \<noteq> d2 \<and> t1 = t2 \<and> l1 = l2) \<or> (d1 = d2 \<and> t1 \<noteq> t2 \<and> l1 = l2) \<or>
      (d1 = d2 \<and> t1 = t2 \<and> l1 \<noteq> l2))
     \<longrightarrow> rss_latest_sha256 env e1 \<noteq> rss_latest_sha256 env e2)"
proof -
  have r1: "rss_latest_sha256 env e1 = Inr (sha256_hexdigest env (d1 @ t1 @ l1))"
    using assms by (simp add: rss_latest_sha256_def getitem_def)
  have r2: "rss_latest_sha256 env e2 = Inr (sha256_hexdigest env (d2 @ t2 @ l2))"
    using assms by (simp add: rss_latest_sha256_def getitem_def)
  show ?thesis
    unfolding r1 r2 by auto
qed

theorem rss_latest_sha256_fingerprint_witness:
  "rss_latest_sha256 example_env storm = Inr ''MonStorm warninghttp://x/1'' \<and>
   rss_latest_sha256 example_env storm \<noteq> rss_latest_sha256 example_env storm_updated"
proof -
  have t1: "title storm = Some ''Storm warning''" and l1: "link storm = Some ''http://x/1''"
    and t2: "title storm_updated = Some ''Storm warning - updated''"
    and l2: "link storm_updated = Some ''http://x/1''"
    and d1: "''Mon'' = get_latest_entry_date storm"
    and d2: "''Mon'' = get_latest_entry_date storm_updated"
    by (simp_all add: storm_def storm_updated_def get_latest_entry_date_def)
  have h: "sha256_hexdigest example_env = (\<lambda>s. s)"
    by (simp add: example_env_def)
  show ?thesis
    using rss_latest_sha256_fingerprint [OF t1 l1 t2 l2 d1 d2, of example_env]
    unfolding h by auto
qed

subsection \<open>The image of an entry\<close>

text \<open>
  C10: \<^verbatim>\<open>get_entry_img_url\<close> returns \<^verbatim>\<open>None\<close> for an entry that has neither a content nor
  a description, and for an entry whose HTML body holds no \<^verbatim>\<open><img>\<close> tag; for an entry
  whose first \<^verbatim>\<open><img>\<close> tag has no \<^verbatim>\<open>src\<close> attribute it raises \<^verbatim>\<open>KeyError\<close>.
\<close>

theorem get_entry_img_url_partial:
  "(content e = None \<and> description e = None \<longrightarrow> get_entry_img_url env e = Inr None) \<and>
   (has_html e html \<and> find_img env html = None \<longrightarrow> get_entry_img_url env e = Inr None) \<and>
   (has_html e html \<and> html \<noteq> [] \<and> find_img env html = Some img_tag \<and> img_tag ''src'' = None
      \<longrightarrow> get_entry_img_url env e = Inl KeyError)"
  by (auto simp: get_entry_img_url_def has_html_def truthy_def getitem_def)

theorem get_entry_img_url_partial_witness:
  "get_entry_img_url example_env storm = Inr None \<and>
   get_entry_img_url example_env (storm\<lparr>description := Some ''<p>rain</p>''\<rparr>) = Inr None \<and>
   get_entry_img_url example_env no_src = Inl KeyError"
proof -
  have a: "content storm = None \<and> description storm = None"
    by (simp add: storm_def)
  have b: "has_html (storm\<lparr>description := Some ''<p>rain</p>''\<rparr>) ''<p>rain</p>'' \<and>
      find_img example_env ''<p>rain</p>'' = None"
    by (simp add: storm_def has_html_def example_env_def)
  have c: "has_html no_src ''<img alt=x>'' \<and> ''<img alt=x>'' \<noteq> [] \<and>
      find_img example_env ''<img alt=x>'' = Some [''alt'' \<mapsto> ''x''] \<and>
      [''alt'' \<mapsto> ''x''] ''src'' = None"
    by (simp add: no_src_def storm_def has_html_def example_env_def)
  show ?thesis
    using get_entry_img_url_partial [of storm example_env]
      get_entry_img_url_partial
        [of "storm\<lparr>description := Some ''<p>rain</p>''\<rparr>" example_env "''<p>rain</p>''"]
      get_entry_img_url_partial
        [of no_src example_env "''<img alt=x>''" "[''alt'' \<mapsto> ''x'']"]
      a b c
    by blast
qed

subsection \<open>Duplicates\<close>

text \<open>
  C2: \<^verbatim>\<open>is_duplicate_update\<close> returns false when the table is empty, whatever the title;
  else it returns true exactly when the title of the most recent row is a substring of
  the entry's title or the ratio of the two titles is at least \<open>0.75\<close> (so false with no
  containment and a smaller ratio).
\<close>

theorem is_duplicate_update_iff:
  assumes "title e = Some cur_title"
  shows "is_duplicate_update env e w =
    Inr (table w \<noteq> [] \<and>
         (sublist (index3 (last (table w))) cur_title \<or>
          ratio env cur_title (index3 (last (table w))) \<ge> 3 / 4))"
  using assms
  by (simp add: is_duplicate_update_def getitem_def get_last_table_entry_def Let_def)

theorem is_duplicate_update_iff_witness:
  "is_duplicate_update example_env storm_updated empty_world = Inr False \<and>
   is_duplicate_update example_env storm_updated storm_world = Inr True \<and>
   is_duplicate_update example_env release_1 release_world = Inr True \<and>
   is_duplicate_update example_env storm release_world = Inr False"
proof -
  have t: "title storm_updated = Some ''Storm warning - updated''"
    and t1: "title release_1 = Some ''Release v1.2.1 now available''"
    and t0: "title storm = Some ''Storm warning''"
    by (simp_all add: storm_updated_def release_1_def storm_def)
  have s: "sublist ''Storm warning'' ''Storm warning - updated''"
    and s1: "\<not> sublist ''Release v1.2.0 now available'' ''Release v1.2.1 now available''"
    and s0: "\<not> sublist ''Release v1.2.0 now available'' ''Storm warning''"
    by (simp_all add: sublist_code)
  show ?thesis
    using is_duplicate_update_iff [OF t, of example_env empty_world]
      is_duplicate_update_iff [OF t, of example_env storm_world]
      is_duplicate_update_iff [OF t1, of example_env release_world]
      is_duplicate_update_iff [OF t0, of example_env release_world] s s1 s0
    by (simp add: empty_world_def storm_world_def release_world_def index3_def example_env_def)
qed

subsection \<open>An entry that is already stored\<close>

text \<open>
  C5: an entry whose fingerprint is the hash of a stored row changes nothing: the loop
  body returns the world as it was (table, timeline, direct messages, requests sent and
  lines printed), and the loop goes on with the next entry.
\<close>

theorem monitor_entry_already_seen:
  assumes "rss_latest_sha256 env e = Inr h" and "h \<in> set (map index1 (table w))"
  shows "monitor_entry env users e w = (Inr (), w) \<and>
         monitor_loop env users (e # es) w = monitor_loop env users es w"
  using assms by (simp add: monitor_entry_def check_for_existing_update_def)

theorem monitor_entry_already_seen_witness:
  "monitor_entry example_env [''bob'', ''eve''] storm storm_world = (Inr (), storm_world) \<and>
   monitor_loop example_env [''bob'', ''eve''] [storm] storm_world = (Inr (), storm_world)"
proof -
  have h: "rss_latest_sha256 example_env storm = Inr ''MonStorm warninghttp://x/1''"
    by (simp add: rss_latest_sha256_def getitem_def storm_def example_env_def
        get_latest_entry_date_def)
  have m: "''MonStorm warninghttp://x/1'' \<in> set (map index1 (table storm_world))"
    by (simp add: storm_world_def empty_world_def index1_def)
  show ?thesis
    using monitor_entry_already_seen [OF h m, of "[''bob'', ''eve'']" "[]"] by simp
qed

subsection \<open>What the requests leave alone\<close>

text \<open>No request, and nothing \<^verbatim>\<open>TweetUpdate\<close> does, changes the table.\<close>

lemma request_table: "request env c w = (r, w') \<Longrightarrow> table w' = table w"
  by (auto simp: request_def)

lemma update_table: "update env s w = (r, w') \<Longrightarrow> table w' = table w"
  by (auto simp: update_def new_tweet_def split: prod.splits option.splits dest: request_table)

lemma update_with_media_table: "update_with_media env s i w = (r, w') \<Longrightarrow> table w' = table w"
  by (auto simp: update_with_media_def new_tweet_def split: prod.splits option.splits
      dest: request_table)

lemma urlretrieve_table: "urlretrieve env u w = (r, w') \<Longrightarrow> table w' = table w"
  by (auto simp: urlretrieve_def split: prod.splits option.splits dest: request_table)

lemma reset_msg_table: "reset_msg env w = (r, w') \<Longrightarrow> table w' = table w"
  by (auto simp: reset_msg_def split: prod.splits option.splits dest: request_table)

lemma send_dm_table: "send_dm env u m w = (r, w') \<Longrightarrow> table w' = table w"
  by (auto simp: send_dm_def split: prod.splits option.splits dest: request_table)

lemma home_timeline_table: "home_timeline env n w = (r, w') \<Longrightarrow> table w' = table w"
  by (auto simp: home_timeline_def split: prod.splits option.splits dest: request_table)

lemma destroy_table: "destroy env i w = (r, w') \<Longrightarrow> table w' = table w"
  by (auto simp: destroy_def split: prod.splits option.splits dest: request_table)

lemma print_line_table [simp]: "table (print_line p w) = table w"
  by (simp add: print_line_def)

lemma tweet_plain_table: "tweet_plain env m w = (r, w') \<Longrightarrow> table w' = table w"
  by (auto simp: tweet_plain_def Let_def split: prod.splits sum.splits if_splits
      dest!: update_table)

lemma tweet_media_table: "tweet_media env m iu w = (r, w') \<Longrightarrow> table w' = table w"
  by (auto simp: tweet_media_def split: option.splits prod.splits sum.splits if_splits
      dest!: tweet_plain_table urlretrieve_table update_with_media_table)

lemma tweet_latest_update_table:
  "tweet_latest_update env e w = (r, w') \<Longrightarrow> table w' = table w"
  by (auto simp: tweet_latest_update_def Let_def split: sum.splits dest!: tweet_media_table)

lemma send_dm_loop_table: "send_dm_loop env m us w = (r, w') \<Longrightarrow> table w' = table w"
proof (induction us arbitrary: w)
  case Nil
  then show ?case by simp
next
  case (Cons u us)
  then show ?case
    by (auto split: prod.splits sum.splits dest!: send_dm_table)
qed

lemma try_body_table: "try_body env us e w = (r, w') \<Longrightarrow> table w' = table w"
  by (auto simp: try_body_def send_dm_to_feed_subscribed_users_def
      split: prod.splits sum.splits
      dest!: tweet_latest_update_table reset_msg_table send_dm_loop_table)

lemma delete_last_tweet_table: "delete_last_tweet env w = (r, w') \<Longrightarrow> table w' = table w"
  by (auto simp: delete_last_tweet_def split: prod.splits sum.splits list.splits
      dest!: home_timeline_table destroy_table)

subsection \<open>Direct messages\<close>






subsection \<open>A duplicate entry\<close>

text \<open>
  Whatever the entry, the table and the requests: once \<^verbatim>\<open>is_duplicate_update\<close> has
  answered true, lines 77 and 78 raise. The table and the printed lines are as before,
  and the only requests sent are the ones of \<^verbatim>\<open>delete_last_tweet\<close>.
\<close>

lemma request_printed: "request env c w = (r, w') \<Longrightarrow> printed w' = printed w"
  by (auto simp: request_def)

lemma delete_last_tweet_printed:
  "delete_last_tweet env w = (r, w') \<Longrightarrow> printed w' = printed w"
  by (auto simp: delete_last_tweet_def home_timeline_def destroy_def
      split: prod.splits sum.splits list.splits option.splits dest!: request_printed)

lemma delete_last_tweet_requests:
  "delete_last_tweet env w = (r, w') \<Longrightarrow>
     \<exists>rs. requests w' = requests w @ rs \<and> set rs \<subseteq> insert (HomeTimeline 1) (range Destroy)"
  by (auto simp: delete_last_tweet_def home_timeline_def destroy_def request_def
      split: prod.splits sum.splits list.splits option.splits)

lemma retract_duplicate_raises:
  assumes "is_duplicate_update env e w = Inr True"
  shows "\<exists>x w' rs. retract_duplicate env e w = (Inl x, w') \<and> table w' = table w \<and>
           printed w' = printed w \<and> requests w' = requests w @ rs \<and>
           set rs \<subseteq> insert (HomeTimeline 1) (range Destroy)"
proof -
  obtain r w1 where d: "delete_last_tweet env w = (r, w1)"
    by (cases "delete_last_tweet env w")
  have "\<exists>x. retract_duplicate env e w = (Inl x, w1)"
    using assms d by (cases r) (simp_all add: retract_duplicate_def subscript_method_def)
  with delete_last_tweet_table [OF d] delete_last_tweet_printed [OF d]
    delete_last_tweet_requests [OF d]
  show ?thesis by blast
qed

lemma monitor_entry_duplicate_raises:
  assumes "rss_latest_sha256 env e = Inr h" and "\<not> check_for_existing_update w h"
    and "is_duplicate_update env e w = Inr True"
  shows "\<exists>x w' rs. monitor_entry env us e w = (Inl x, w') \<and>
           monitor_loop env us (e # es) w = (Inl x, w') \<and> table w' = table w \<and>
           printed w' = printed w \<and> requests w' = requests w @ rs \<and>
           set rs \<subseteq> insert (HomeTimeline 1) (range Destroy)"
proof -
  from retract_duplicate_raises [OF assms(3)] obtain x w' rs where
    r: "retract_duplicate env e w = (Inl x, w')" and
    f: "table w' = table w" "printed w' = printed w" "requests w' = requests w @ rs"
       "set rs \<subseteq> insert (HomeTimeline 1) (range Destroy)"
    by blast
  have "monitor_entry env us e w = (Inl x, w')"
    using assms(1,2) r by (simp add: monitor_entry_def)
  with f show ?thesis by auto
qed

text \<open>
  C1: the scenario of the claim, evaluated. The table holds one row, the next entry is
  not stored and its title has ratio \<open>0.8\<close> with the stored one, so it is a duplicate.
  The last tweet is deleted; then line 78 raises \<^verbatim>\<open>TypeError\<close>, which leaves
  \<^verbatim>\<open>monitor\<close>: the row is not deleted, nothing is printed, no tweet is sent and no row
  is inserted.
\<close>

theorem monitor_entry_duplicate_TypeError:
  "rss_latest_sha256 example_env release_1 = Inr ''MonRelease v1.2.1 now availablehttp://x/1'' \<and>
   \<not> check_for_existing_update release_world ''MonRelease v1.2.1 now availablehttp://x/1'' \<and>
   is_duplicate_update example_env release_1 release_world = Inr True \<and>
   monitor_entry example_env [''amy'', ''bob'', ''eve''] release_1 release_world =
     (Inl TypeError, release_world\<lparr>timeline := [], requests := [HomeTimeline 1, Destroy 0]\<rparr>)"
  by (simp add: run_defs example_defs sublist_code)

text \<open>
  C3: for a duplicate entry no tweet and no direct message is sent, and the exception
  leaves \<^verbatim>\<open>monitor\<close>. For a new entry, with \<^verbatim>\<open>TweetUpdate\<close> as \<^verbatim>\<open>tweetupdate.py\<close> defines
  it, the tweet is sent, \<^verbatim>\<open>reset_msg\<close> raises \<^verbatim>\<open>AttributeError\<close>, and no direct message
  is sent to any of the three subscribers.
\<close>

theorem monitor_duplicate_not_published:
  "monitor example_env [storm_updated] storm_world =
     (Inl TypeError, storm_world\<lparr>timeline := [], requests := [HomeTimeline 1, Destroy 0]\<rparr>) \<and>
   monitor source_env [storm] empty_world =
     (Inr (), empty_world
        \<lparr>table := [(1, ''MonStorm warninghttp://x/1'', ''Mon'', ''Storm warning'', ''http://x/1'')],
         timeline := [(0, ''Storm warning'' @ nl @ ''http://x/1'', None)],
         next_tweet_id := 1,
         requests := [Update (''Storm warning'' @ nl @ ''http://x/1''), ResetMsg],
         printed := [PrintLength 13, PrintMsg ''Storm warning'',
                     ErrorWhileSendingTweet AttributeError, EntryUpdated]\<rparr>)"
  by (simp add: run_defs example_defs sublist_code)

text \<open>
  C4: for a duplicate entry that is not stored, the loop body raises before the \<^verbatim>\<open>try\<close>
  statement: the table is as it was, and the entry's fingerprint is still not in it.
\<close>

theorem monitor_entry_duplicate_not_stored:
  "rss_latest_sha256 example_env storm_updated = Inr ''MonStorm warning - updatedhttp://x/1'' \<and>
   \<not> check_for_existing_update storm_world ''MonStorm warning - updatedhttp://x/1'' \<and>
   fst (monitor_entry example_env [''amy'', ''bob'', ''eve''] storm_updated storm_world)
     = Inl TypeError \<and>
   table (snd (monitor_entry example_env [''amy'', ''bob'', ''eve''] storm_updated storm_world))
     = table storm_world \<and>
   \<not> check_for_existing_update
       (snd (monitor_entry example_env [''amy'', ''bob'', ''eve''] storm_updated storm_world))
       ''MonStorm warning - updatedhttp://x/1''"
  by (simp add: run_defs example_defs sublist_code)

subsection \<open>A new entry\<close>

text \<open>
  The \<^verbatim>\<open>try\<close> statement returns normally and inserts the row of the entry, whatever the
  tweet and the direct messages do; so does the loop body for an entry that is neither
  stored nor a duplicate.
\<close>

lemma try_statement_persists:
  assumes "title e = Some t" and "link e = Some l"
  shows "\<exists>w'. try_statement env us e w = (Inr (), w') \<and>
     table w' = table w @ [(Suc (length (table w)),
        sha256_hexdigest env (get_latest_entry_date e @ t @ l), get_latest_entry_date e, t, l)]"
proof -
  obtain r w1 where b: "try_body env us e w = (r, w1)"
    by (cases "try_body env us e w")
  have t: "table w1 = table w"
    using try_body_table [OF b] .
  have row: "latest_rss_entry_to_db env e =
      Inr (sha256_hexdigest env (get_latest_entry_date e @ t @ l), get_latest_entry_date e, t, l)"
    using assms by (simp add: latest_rss_entry_to_db_def rss_latest_sha256_def getitem_def)
  have nu: "\<exists>p. new_update_line env e = Inr p"
    using assms by (simp add: new_update_line_def rss_latest_sha256_def getitem_def)
  then obtain p where p: "new_update_line env e = Inr p" ..
  show ?thesis
    using b t row p
    by (cases r) (simp_all add: try_statement_def create_latest_rss_entry_def)
qed

lemma monitor_entry_new_persists:
  assumes "title e = Some t" and "link e = Some l"
    and "h = sha256_hexdigest env (get_latest_entry_date e @ t @ l)"
    and "\<not> check_for_existing_update w h"
    and "is_duplicate_update env e w = Inr False"
  shows "\<exists>w'. monitor_entry env us e w = (Inr (), w') \<and>
     table w' = table w @ [(Suc (length (table w)), h, get_latest_entry_date e, t, l)]"
proof -
  have fp: "rss_latest_sha256 env e = Inr h"
    using assms(1,2,3) by (simp add: rss_latest_sha256_def getitem_def)
  have "monitor_entry env us e w = try_statement env us e w"
    using fp assms(4,5) by (simp add: monitor_entry_def retract_duplicate_def)
  with try_statement_persists [OF assms(1,2), of env us w] assms(3) show ?thesis
    by simp
qed

subsection \<open>The composed message\<close>

text \<open>
  What \<^verbatim>\<open>compose\<close> returns, case by case: a title over the budget is cut and the message
  has exactly the budget's length; a summary that fits is kept; a summary that does not
  fit is cut to the budget when the title leaves room for four characters more, and
  becomes the ellipsis alone, which is over the budget, when the title does not.
\<close>

lemma compose_title_cut:
  assumes "3 \<le> limit" and "limit < int (length t)"
  shows "compose limit t sm =
      [(''title'', Some (take (nat (limit - 3)) t @ ''...'')), (''summary'', None),
       (''url'', None), (''img_url'', None)] \<and>
    msg_length (compose limit t sm) = limit"
proof -
  from assms have ne: "t \<noteq> []" by auto
  have c: "compose limit t sm =
      [(''title'', Some (take (nat (limit - 3)) t @ ''...'')), (''summary'', None),
       (''url'', None), (''img_url'', None)]"
    using assms ne
    by (simp add: compose_def empty_msg_def msg_length_def msg_text_def slice_to_def)
  have "msg_length (compose limit t sm) = limit"
    unfolding c using assms by (simp add: msg_length_def msg_text_def)
  with c show ?thesis by simp
qed

lemma compose_no_summary:
  assumes "int (length t) \<le> limit"
  shows "compose limit t None =
      [(''title'', Some t), (''summary'', None), (''url'', None), (''img_url'', None)] \<and>
    msg_length (compose limit t None) = int (length t)"
  using assms
  by (cases "t = []")
    (simp_all add: compose_def empty_msg_def msg_length_def msg_text_def)

lemma compose_summary_kept:
  assumes "int (length t) \<le> limit"
    and "int (length (join nl (filter (\<lambda>x. x \<noteq> []) [t, s]))) \<le> limit"
  shows "compose limit t (Some s) =
      [(''title'', Some t), (''summary'', Some s), (''url'', None), (''img_url'', None)] \<and>
    msg_length (compose limit t (Some s)) \<le> limit"
  using assms
  by (cases "t = []"; cases "s = []")
    (simp_all add: compose_def empty_msg_def msg_length_def msg_text_def)

lemma compose_summary_cut:
  assumes "int (length t) + 4 \<le> limit"
    and "limit < int (length (join nl (filter (\<lambda>x. x \<noteq> []) [t, s])))"
  shows "\<exists>s'. compose limit t (Some s) =
      [(''title'', Some t), (''summary'', Some (s' @ ''...'')), (''url'', None),
       (''img_url'', None)] \<and>
    msg_length (compose limit t (Some s)) = limit"
  using assms
  by (cases "t = []"; cases "s = []")
    (auto simp add: compose_def empty_msg_def msg_length_def msg_text_def slice_to_def nl_def
      Let_def)

lemma compose_summary_overflow:
  assumes "limit - 3 \<le> int (length t)" and "int (length t) \<le> limit" and "4 \<le> limit"
    and "s \<noteq> []" and "limit < int (length t) + 1 + int (length s)"
  shows "compose limit t (Some s) =
      [(''title'', Some t), (''summary'', Some ''...''), (''url'', None), (''img_url'', None)] \<and>
    msg_length (compose limit t (Some s)) = int (length t) + 4"
proof -
  from assms have ne: "t \<noteq> []" by auto
  show ?thesis
    using assms ne
    by (auto simp add: compose_def empty_msg_def msg_length_def msg_text_def slice_to_def nl_def
      Let_def)
qed

text \<open>
  C6: an entry with a link, no image, a title of 113 characters and the summary
  \<^verbatim>\<open>abc\<close>. The budget is 116; title and summary together are 117 characters, the
  summary is cut to the ellipsis alone, and the message is still 117 characters long.
\<close>

theorem compose_over_budget:
  "title long_title = Some (replicate 113 CHR ''a'') \<and>
   summary long_title = Some ''abc'' \<and>
   get_entry_img_url example_env long_title = Inr None \<and>
   msg_limit_length ''http://x/1'' None = 116 \<and>
   msg_text (compose 116 (replicate 113 CHR ''a'') (Some ''abc''))
     = replicate 113 CHR ''a'' @ nl @ ''...'' \<and>
   msg_length (compose 116 (replicate 113 CHR ''a'') (Some ''abc'')) = 117 \<and>
   printed (snd (tweet_latest_update example_env long_title empty_world))
     = [PrintLength 117, PrintMsg (replicate 113 CHR ''a'' @ nl @ ''...'')]"
  by (simp add: run_defs example_defs nl_def)

subsection \<open>The tweet with media\<close>

text \<open>
  \<^verbatim>\<open>compose\<close> and the assignments keep the four keys, so \<^verbatim>\<open>'\n'.join(msg)\<close> is the same
  text for every entry; it is the status of the tweet with media whenever the entry has
  an image that can be downloaded.
\<close>

lemma compose_keys:
  "map fst (compose limit t sm) = [''title'', ''summary'', ''url'', ''img_url'']"
  by (simp add: compose_def empty_msg_def Let_def split: option.splits)

lemma msg_keys_text_compose:
  "msg_keys_text (AList.update ''url'' u (compose limit t sm)) =
     ''title'' @ nl @ ''summary'' @ nl @ ''url'' @ nl @ ''img_url''"
  by (simp add: compose_def empty_msg_def Let_def msg_keys_text_def split: option.splits)


lemma update_requests:
  "update env s w = (r, w') \<Longrightarrow> requests w' = requests w @ [Update s]"
  by (auto simp: update_def request_def new_tweet_def split: option.splits)

lemma tweet_plain_requests:
  "tweet_plain env m w = (r, w') \<Longrightarrow> \<exists>rs. requests w' = requests w @ rs"
  by (auto simp: tweet_plain_def Let_def print_line_def split: prod.splits sum.splits if_splits
      dest!: update_requests)

lemma tweet_latest_update_media_status:
  assumes "link e = Some url" and "title e = Some t"
    and "get_entry_img_url env e = Inr (Some iu)" and "iu \<noteq> []"
    and "raises env (requests w) (UrlRetrieve iu) = None"
  shows "\<exists>r w' rs. tweet_latest_update env e w = (r, w') \<and>
    requests w' = requests w @
      UrlRetrieve iu #
      UpdateWithMedia (''title'' @ nl @ ''summary'' @ nl @ ''url'' @ nl @ ''img_url'')
        (retrieved env iu) # rs"
proof -
  define m where "m = AList.update ''url'' (Some url) (compose (msg_limit_length url (Some iu)) t (summary e))"
  define w1 where "w1 = print_line (PrintMsg (msg_text (compose (msg_limit_length url (Some iu)) t (summary e))))
       (print_line (PrintLength (msg_length (compose (msg_limit_length url (Some iu)) t (summary e)))) w)"
  have k: "msg_keys_text m = ''title'' @ nl @ ''summary'' @ nl @ ''url'' @ nl @ ''img_url''"
    unfolding m_def by (rule msg_keys_text_compose)
  have tl: "tweet_latest_update env e w = tweet_media env m (Some iu) w1"
    using assms(1,2,3) by (simp add: tweet_latest_update_def getitem_def m_def w1_def Let_def)
  have rq: "requests w1 = requests w"
    by (simp add: w1_def print_line_def)
  define w2 where "w2 = w1\<lparr>requests := requests w1 @ [UrlRetrieve iu]\<rparr>"
  have ur: "urlretrieve env iu w1 = (Inr (retrieved env iu), w2)"
    using assms(5) rq by (simp add: urlretrieve_def request_def w2_def)
  obtain r3 w3 where um: "update_with_media env (msg_keys_text m) (retrieved env iu) w2 = (r3, w3)"
    by (cases "update_with_media env (msg_keys_text m) (retrieved env iu) w2")
  have r3: "requests w3 = requests w @ [UrlRetrieve iu, UpdateWithMedia (msg_keys_text m) (retrieved env iu)]"
    using um rq
    by (auto simp: update_with_media_def request_def new_tweet_def w2_def split: option.splits)
  obtain r w' where tm: "tweet_media env m (Some iu) w1 = (r, w')"
    by (cases "tweet_media env m (Some iu) w1")
  have "\<exists>rs. requests w' = requests w3 @ rs"
  proof (cases r3)
    case (Inr u)
    with tm ur um assms(4) have "w' = w3" by (simp add: tweet_media_def)
    then show ?thesis by simp
  next
    case (Inl x)
    show ?thesis
    proof (cases "x = TwitterHTTPError")
      case True
      with Inl tm ur um assms(4)
      have "tweet_plain env (AList.update ''img_url'' (Some iu) m)
              (print_line CannotTweetWithMedia w3) = (r, w')"
        by (simp add: tweet_media_def)
      from tweet_plain_requests [OF this] show ?thesis
        by (simp add: print_line_def)
    next
      case False
      with Inl tm ur um assms(4) have "w' = w3" by (simp add: tweet_media_def)
      then show ?thesis by simp
    qed
  qed
  then obtain rs where "requests w' = requests w3 @ rs" ..
  with r3 k tl tm show ?thesis by simp
qed

text \<open>
  C7: an entry with an image. The status of the tweet with media is the four keys of the
  message joined by newlines, not the composed message; and when Twitter rejects the
  tweet with media and the first plain tweet, the last tweet holds the title, the link
  and the image's URL.
\<close>

theorem tweet_with_media_status_is_keys:
  "get_entry_img_url example_env with_img = Inr (Some ''http://x/i.png'') \<and>
   requests (snd (tweet_latest_update example_env with_img empty_world)) =
     [UrlRetrieve ''http://x/i.png'',
      UpdateWithMedia (''title'' @ nl @ ''summary'' @ nl @ ''url'' @ nl @ ''img_url'') ''PNG''] \<and>
   timeline (snd (tweet_latest_update example_env with_img empty_world)) =
     [(0, ''title'' @ nl @ ''summary'' @ nl @ ''url'' @ nl @ ''img_url'', Some ''PNG'')] \<and>
   requests (snd (tweet_latest_update rejecting_env with_img empty_world)) =
     [UrlRetrieve ''http://x/i.png'',
      UpdateWithMedia (''title'' @ nl @ ''summary'' @ nl @ ''url'' @ nl @ ''img_url'') ''PNG'',
      Update (''Storm warning'' @ nl @ ''Rain'' @ nl @ ''http://x/1'' @ nl @ ''http://x/i.png''),
      Update (''Storm warning'' @ nl @ ''http://x/1'' @ nl @ ''http://x/i.png'')]"
  by (simp add: run_defs example_defs nl_def)

end
